theory Spec2Isabelle
  imports Complex_Main "HOL-Library.AList" "HOL-Library.Product_Lexorder"
begin

section \<open>Stored documents\<close>

text \<open>
  A stored document is a Python dict from field names to decoded BSON values. The values
  that occur in this program are null, booleans, integers, doubles, strings, arrays and
  ObjectIds. A double is modelled by the real number it denotes (NaN and the infinities
  are left out); an ObjectId by its canonical form, 24 lower-case hexadecimal digits.
\<close>

datatype bson =
    VNull
  | VBool bool
  | VInt int
  | VNum real
  | VStr string
  | VList "bson list"
  | VOid string

type_synonym document = "(string \<times> bson) list"

text \<open>
  Exceptions are values: \<open>RequestValidationError\<close> is the rejection of a request by the
  route (a query parameter outside its declared range), \<open>ValidationError\<close> is raised by an
  output model for a missing or ill-typed field, \<open>InvalidId\<close> by \<open>ObjectId\<close> for a string
  that is no identifier. \<open>NotModelled\<close> is no exception of the program: it marks an input
  on which this model does not say what the program computes.
\<close>

datatype error =
    RequestValidationError
  | ValidationError
  | InvalidId
  | NotModelled

definition bind_res :: "error + 'a \<Rightarrow> ('a \<Rightarrow> error + 'b) \<Rightarrow> error + 'b" where
  "bind_res m f = (case m of Inl e \<Rightarrow> Inl e | Inr a \<Rightarrow> f a)"

text \<open>Python truthiness of a decoded value (\<open>if d.get("_id")\<close>).\<close>

fun truthy :: "bson \<Rightarrow> bool" where
  "truthy VNull = False"
| "truthy (VBool b) = b"
| "truthy (VInt i) = (i \<noteq> 0)"
| "truthy (VNum r) = (r \<noteq> 0)"
| "truthy (VStr s) = (s \<noteq> [])"
| "truthy (VList vs) = (vs \<noteq> [])"
| "truthy (VOid h) = True"

fun digits :: "nat \<Rightarrow> string" where
  "digits n = (if n < 10 then [char_of (48 + n)]
               else digits (n div 10) @ [char_of (48 + n mod 10)])"

declare digits.simps [simp del]

text \<open>
  Python \<open>str\<close> of an identifier value. The textual form of a double and of a list is
  not modelled: \<open>None\<close> stands for "outside this model", never for an exception.
\<close>

fun py_str :: "bson \<Rightarrow> string option" where
  "py_str (VOid h) = Some h"
| "py_str (VStr s) = Some s"
| "py_str (VInt i) = Some (if i < 0 then CHR ''-'' # digits (nat (- i)) else digits (nat i))"
| "py_str (VBool b) = Some (if b then ''True'' else ''False'')"
| "py_str VNull = Some ''None''"
| "py_str (VNum r) = None"
| "py_str (VList vs) = None"

text \<open>
  \<open>_to_id_str\<close>: copy the dict; when it holds a truthy \<open>_id\<close>, remove that key and store
  its string form under \<open>id\<close>.
\<close>

definition to_id_str :: "document \<Rightarrow> error + document" where
  "to_id_str doc =
     (case map_of doc ''_id'' of
        None \<Rightarrow> Inr doc
      | Some v \<Rightarrow>
          if truthy v
          then (case py_str v of
                  None \<Rightarrow> Inl NotModelled
                | Some s \<Rightarrow> Inr (AList.update ''id'' (VStr s) (AList.delete ''_id'' doc)))
          else Inr doc)"

section \<open>Public record shapes\<close>


record ProductOut =
  prod_id :: string
  title :: string
  description :: "string option"
  price :: real
  category :: string
  brand :: "string option"
  rating :: real
  reviews_count :: int
  images :: "string list"
  colors :: "string list"
  sizes :: "string list"
  in_stock :: bool
  discount_percent :: real
  tags :: "string list"

text \<open>
  Field validation of the two output models. A field accepts the values of its declared
  type, an integer where a float is declared; a field declared \<open>Optional\<close> also accepts
  null; a field with a default takes the default when the key is absent. Everything else
  raises \<open>ValidationError\<close>. Keys that are not fields of the model are ignored.
\<close>

definition req_str :: "document \<Rightarrow> string \<Rightarrow> error + string" where
  "req_str d k = (case map_of d k of Some (VStr s) \<Rightarrow> Inr s | _ \<Rightarrow> Inl ValidationError)"

definition opt_str :: "document \<Rightarrow> string \<Rightarrow> error + string option" where
  "opt_str d k =
     (case map_of d k of
        None \<Rightarrow> Inr None
      | Some VNull \<Rightarrow> Inr None
      | Some (VStr s) \<Rightarrow> Inr (Some s)
      | _ \<Rightarrow> Inl ValidationError)"

definition req_float :: "document \<Rightarrow> string \<Rightarrow> error + real" where
  "req_float d k =
     (case map_of d k of
        Some (VNum r) \<Rightarrow> Inr r
      | Some (VInt i) \<Rightarrow> Inr (of_int i)
      | _ \<Rightarrow> Inl ValidationError)"

definition def_float :: "document \<Rightarrow> string \<Rightarrow> real \<Rightarrow> error + real" where
  "def_float d k dflt =
     (case map_of d k of
        None \<Rightarrow> Inr dflt
      | Some (VNum r) \<Rightarrow> Inr r
      | Some (VInt i) \<Rightarrow> Inr (of_int i)
      | _ \<Rightarrow> Inl ValidationError)"

definition req_int :: "document \<Rightarrow> string \<Rightarrow> error + int" where
  "req_int d k = (case map_of d k of Some (VInt i) \<Rightarrow> Inr i | _ \<Rightarrow> Inl ValidationError)"

definition def_bool :: "document \<Rightarrow> string \<Rightarrow> bool \<Rightarrow> error + bool" where
  "def_bool d k dflt =
     (case map_of d k of
        None \<Rightarrow> Inr dflt
      | Some (VBool b) \<Rightarrow> Inr b
      | _ \<Rightarrow> Inl ValidationError)"

fun str_items :: "bson list \<Rightarrow> error + string list" where
  "str_items [] = Inr []"
| "str_items (VStr s # vs) = bind_res (str_items vs) (\<lambda>ss. Inr (s # ss))"
| "str_items (v # vs) = Inl ValidationError"

definition def_str_list :: "document \<Rightarrow> string \<Rightarrow> error + string list" where
  "def_str_list d k =
     (case map_of d k of
        None \<Rightarrow> Inr []
      | Some (VList vs) \<Rightarrow> str_items vs
      | _ \<Rightarrow> Inl ValidationError)"


definition product_out :: "document \<Rightarrow> error + ProductOut" where
  "product_out d =
     bind_res (req_str d ''id'') (\<lambda>i.
     bind_res (req_str d ''title'') (\<lambda>t.
     bind_res (opt_str d ''description'') (\<lambda>de.
     bind_res (req_float d ''price'') (\<lambda>p.
     bind_res (req_str d ''category'') (\<lambda>c.
     bind_res (opt_str d ''brand'') (\<lambda>b.
     bind_res (req_float d ''rating'') (\<lambda>r.
     bind_res (req_int d ''reviews_count'') (\<lambda>rc.
     bind_res (def_str_list d ''images'') (\<lambda>im.
     bind_res (def_str_list d ''colors'') (\<lambda>co.
     bind_res (def_str_list d ''sizes'') (\<lambda>sz.
     bind_res (def_bool d ''in_stock'' True) (\<lambda>st.
     bind_res (def_float d ''discount_percent'' 0) (\<lambda>dp.
     bind_res (def_str_list d ''tags'') (\<lambda>tg.
     Inr \<lparr>prod_id = i, title = t, description = de, price = p, category = c,
          brand = b, rating = r, reviews_count = rc, images = im, colors = co,
          sizes = sz, in_stock = st, discount_percent = dp, tags = tg\<rparr>))))))))))))))"

text \<open>Projection of one stored document: \<open>ProductOut(**_to_id_str(d))\<close>.\<close>

definition project_product :: "document \<Rightarrow> error + ProductOut" where
  "project_product d = bind_res (to_id_str d) product_out"


section \<open>The document store\<close>

text \<open>
  The module \<open>database\<close> exports the handle \<open>db\<close>, which is \<open>None\<close> when no store is
  available and otherwise gives the collections \<open>product\<close> and \<open>category\<close>, each a
  sequence of documents in natural (insertion) order.
\<close>

record store =
  product_coll :: "document list"
  category_coll :: "document list"

text \<open>
  The filter dict \<open>flt\<close> built by \<open>get_products\<close> has at most three keys: \<open>$or\<close> (three
  \<open>$regex\<close> conditions with the same pattern and option \<open>i\<close>, on title, description
  and tags), \<open>category\<close> (equality) and \<open>price\<close> (a dict with \<open>$gte\<close> and/or \<open>$lte\<close>).
\<close>

record price_cond =
  gte :: "real option"
  lte :: "real option"

record flt =
  f_or :: "string option"
  f_category :: "string option"
  f_price :: "price_cond option"

subsection \<open>Regular expressions\<close>

text \<open>
  The store's \<open>$regex\<close> operator with option \<open>i\<close> searches the pattern anywhere in the
  value, ignoring case. The fragment modelled here is a sequence of literal characters
  and dots, a dot matching any character but a newline. A pattern that uses another
  metacharacter is outside the model (\<open>compile\<close> gives \<open>None\<close>). Case folding is
  that of the ASCII letters.
\<close>

definition lower :: "char \<Rightarrow> char" where
  "lower c = (let n = (of_char c :: nat) in if 65 \<le> n \<and> n \<le> 90 then char_of (n + 32) else c)"

definition metachars :: "char list" where
  "metachars = ''.^$*+?()[]{}|'' @ [CHR 0x5C]"

datatype atom = Lit char | AnyChar

fun compile :: "string \<Rightarrow> atom list option" where
  "compile [] = Some []"
| "compile (c # cs) =
     (if c = CHR ''.'' then map_option ((#) AnyChar) (compile cs)
      else if c \<in> set metachars then None
      else map_option ((#) (Lit c)) (compile cs))"

fun atom_match :: "atom \<Rightarrow> char \<Rightarrow> bool" where
  "atom_match (Lit p) c = (lower p = lower c)"
| "atom_match AnyChar c = (c \<noteq> CHR 0x0A)"

fun match_here :: "atom list \<Rightarrow> string \<Rightarrow> bool" where
  "match_here [] s = True"
| "match_here (a # as) [] = False"
| "match_here (a # as) (c # cs) = (atom_match a c \<and> match_here as cs)"

fun search :: "atom list \<Rightarrow> string \<Rightarrow> bool" where
  "search as [] = match_here as []"
| "search as (c # cs) = (match_here as (c # cs) \<or> search as cs)"

definition regex_search_i :: "string \<Rightarrow> string \<Rightarrow> bool" where
  "regex_search_i p s = (case compile p of None \<Rightarrow> False | Some as \<Rightarrow> search as s)"

subsection \<open>Query operators\<close>

text \<open>
  A condition on a field holds for a document when the field's value satisfies it, or
  when the value is an array and one of its elements does. A missing field satisfies
  none of the three conditions used here.
\<close>

fun str_regex :: "string \<Rightarrow> bson \<Rightarrow> bool" where
  "str_regex p (VStr s) = regex_search_i p s"
| "str_regex p v = False"

fun regex_holds :: "string \<Rightarrow> bson option \<Rightarrow> bool" where
  "regex_holds p None = False"
| "regex_holds p (Some (VList vs)) = list_ex (str_regex p) vs"
| "regex_holds p (Some v) = str_regex p v"

fun eq_holds :: "bson \<Rightarrow> bson option \<Rightarrow> bool" where
  "eq_holds x None = False"
| "eq_holds x (Some (VList vs)) = (VList vs = x \<or> x \<in> set vs)"
| "eq_holds x (Some v) = (v = x)"

fun num_of :: "bson \<Rightarrow> real option" where
  "num_of (VInt i) = Some (of_int i)"
| "num_of (VNum r) = Some r"
| "num_of v = None"

definition num_sat :: "(real \<Rightarrow> bool) \<Rightarrow> bson \<Rightarrow> bool" where
  "num_sat P v = (case num_of v of None \<Rightarrow> False | Some r \<Rightarrow> P r)"

fun num_holds :: "(real \<Rightarrow> bool) \<Rightarrow> bson option \<Rightarrow> bool" where
  "num_holds P None = False"
| "num_holds P (Some (VList vs)) = list_ex (num_sat P) vs"
| "num_holds P (Some v) = num_sat P v"

definition price_holds :: "price_cond \<Rightarrow> bson option \<Rightarrow> bool" where
  "price_holds pc v =
     ((case gte pc of None \<Rightarrow> True | Some lo \<Rightarrow> num_holds (\<lambda>r. lo \<le> r) v) \<and>
      (case lte pc of None \<Rightarrow> True | Some hi \<Rightarrow> num_holds (\<lambda>r. r \<le> hi) v))"

text \<open>The entries of the filter dict are combined by conjunction, \<open>$or\<close> by disjunction.\<close>

definition matches :: "flt \<Rightarrow> document \<Rightarrow> bool" where
  "matches f d =
     ((case f_or f of
         None \<Rightarrow> True
       | Some p \<Rightarrow> regex_holds p (map_of d ''title'') \<or>
                   regex_holds p (map_of d ''description'') \<or>
                   regex_holds p (map_of d ''tags'')) \<and>
      (case f_category f of None \<Rightarrow> True | Some c \<Rightarrow> eq_holds (VStr c) (map_of d ''category'')) \<and>
      (case f_price f of None \<Rightarrow> True | Some pc \<Rightarrow> price_holds pc (map_of d ''price'')))"

definition flt_modelled :: "flt \<Rightarrow> bool" where
  "flt_modelled f = (case f_or f of None \<Rightarrow> True | Some p \<Rightarrow> compile p \<noteq> None)"

text \<open>
  Modelled from the spec: the store's \<open>find\<close> (the collaborator behind \<open>db\<close>, module
  \<open>database\<close>, is not among the sources). Section 6 gives the contract
  \<open>findAll(collection, predicate, sortKey, sortDirection, limit)\<close> returning an ordered
  sequence, and section 4.2 says that the predicate is applied first: the matching
  documents, in store order. A pattern outside the modelled fragment of regular
  expressions gives \<open>NotModelled\<close>.
\<close>

definition find_docs :: "flt \<Rightarrow> document list \<Rightarrow> error + document list" where
  "find_docs f docs = (if flt_modelled f then Inr (filter (matches f) docs) else Inl NotModelled)"

text \<open>
  The sort compares values of different types by type first: an empty array, then null
  or a missing field, then numbers, strings, arrays, ObjectIds, booleans. An array is
  placed by its least element in an ascending sort and by its greatest in a descending
  one. Numbers are compared by value; within each other type the model keeps the store
  order (a document with such a key fails projection on each of the three sort fields).
\<close>

fun scalar_key :: "bson \<Rightarrow> int \<times> real" where
  "scalar_key VNull = (1, 0)"
| "scalar_key (VInt i) = (2, of_int i)"
| "scalar_key (VNum r) = (2, r)"
| "scalar_key (VStr s) = (3, 0)"
| "scalar_key (VList vs) = (5, 0)"
| "scalar_key (VOid h) = (7, 0)"
| "scalar_key (VBool b) = (8, if b then 1 else 0)"

fun key_asc :: "bson option \<Rightarrow> int \<times> real" where
  "key_asc None = (1, 0)"
| "key_asc (Some (VList [])) = (0, 0)"
| "key_asc (Some (VList (v # vs))) = fold min (map scalar_key vs) (scalar_key v)"
| "key_asc (Some v) = scalar_key v"

fun key_desc :: "bson option \<Rightarrow> int \<times> real" where
  "key_desc None = (1, 0)"
| "key_desc (Some (VList [])) = (0, 0)"
| "key_desc (Some (VList (v # vs))) = fold max (map scalar_key vs) (scalar_key v)"
| "key_desc (Some v) = scalar_key v"

text \<open>
  Modelled from the spec: the store's \<open>sort\<close>, applied after the predicate (section 4.2).
  Direction 1 is ascending, every other direction (the code uses \<open>-1\<close>) descending; ties
  keep the store order in both directions (section 8, property 2).
\<close>

definition cursor_sort :: "string \<Rightarrow> int \<Rightarrow> document list \<Rightarrow> document list" where
  "cursor_sort k dir docs =
     (if dir = 1 then sort_key (\<lambda>d. key_asc (map_of d k)) docs
      else rev (sort_key (\<lambda>d. key_desc (map_of d k)) (rev docs)))"

text \<open>
  Modelled from the spec: the store's \<open>limit\<close>, the truncation to the first \<open>n\<close>
  documents, applied after the sort (section 4.2). A limit of 0 is no limit, and a
  negative one counts by its absolute value; the route admits neither.
\<close>

definition cursor_limit :: "int \<Rightarrow> document list \<Rightarrow> document list" where
  "cursor_limit n docs = (if n = 0 then docs else take (nat \<bar>n\<bar>) docs)"

text \<open>
  Modelled from the spec: the store's \<open>findOne(collection, internalId)\<close> of section 6,
  the first document with this identifier, or \<open>None\<close> (an \<open>_id\<close> is never an array).
\<close>

definition find_one :: "string \<Rightarrow> document list \<Rightarrow> document option" where
  "find_one oid docs = List.find (\<lambda>d. map_of d ''_id'' = Some (VOid oid)) docs"

text \<open>
  \<open>ObjectId(s)\<close>: a string of 24 hexadecimal digits denotes an identifier, whose
  canonical form is in lower case; any other string raises \<open>InvalidId\<close>.
\<close>

definition is_hex :: "char \<Rightarrow> bool" where
  "is_hex c = (let n = (of_char c :: nat) in
                 (48 \<le> n \<and> n \<le> 57) \<or> (65 \<le> n \<and> n \<le> 70) \<or> (97 \<le> n \<and> n \<le> 102))"

definition object_id :: "string \<Rightarrow> error + string" where
  "object_id s = (if length s = 24 \<and> list_all is_hex s then Inr (map lower s) else Inl InvalidId)"

section \<open>The endpoints\<close>

fun map_res :: "('a \<Rightarrow> error + 'b) \<Rightarrow> 'a list \<Rightarrow> error + 'b list" where
  "map_res f [] = Inr []"
| "map_res f (x # xs) = bind_res (f x) (\<lambda>y. bind_res (map_res f xs) (\<lambda>ys. Inr (y # ys)))"


text \<open>Python truthiness of an optional string parameter (\<open>if q:\<close>, \<open>if category:\<close>).\<close>

definition given :: "string option \<Rightarrow> bool" where
  "given s = (s \<noteq> None \<and> s \<noteq> Some [])"

definition build_flt ::
  "string option \<Rightarrow> string option \<Rightarrow> real option \<Rightarrow> real option \<Rightarrow> flt" where
  "build_flt q cat min_price max_price =
     \<lparr>f_or = (if given q then q else None),
      f_category = (if given cat then cat else None),
      f_price = (if min_price \<noteq> None \<or> max_price \<noteq> None
                 then Some \<lparr>gte = min_price, lte = max_price\<rparr> else None)\<rparr>"

definition resolve_sort :: "string option \<Rightarrow> string \<times> int" where
  "resolve_sort sort_by =
     (if sort_by = Some ''price_asc'' then (''price'', 1)
      else if sort_by = Some ''price_desc'' then (''price'', - 1)
      else if sort_by = Some ''rating'' then (''rating'', - 1)
      else (''reviews_count'', - 1))"

text \<open>The body of \<open>get_products\<close>, run once the parameters have been validated.\<close>

definition get_products ::
  "store option \<Rightarrow> string option \<Rightarrow> string option \<Rightarrow> real option \<Rightarrow> real option \<Rightarrow>
   string option \<Rightarrow> int \<Rightarrow> error + ProductOut list" where
  "get_products db q cat min_price max_price sort_by limit =
     (case db of
        None \<Rightarrow> Inr []
      | Some st \<Rightarrow>
          (let f = build_flt q cat min_price max_price;
               (sort_k, sort_dir) = resolve_sort sort_by
           in bind_res (find_docs f (product_coll st)) (\<lambda>cursor.
                let cursor = (if sort_k \<noteq> [] then cursor_sort sort_k sort_dir cursor else cursor);
                    cursor = cursor_limit limit cursor
                in map_res project_product cursor)))"

text \<open>
  The route \<open>/api/products\<close>: the declared constraints of the query parameters
  (\<open>min_price\<close> and \<open>max_price\<close> at least 0, \<open>limit\<close> from 1 to 100) are checked before
  the body runs, and the defaults \<open>popularity\<close> and 24 stand in for an omitted \<open>sort\<close>
  and \<open>limit\<close>.
\<close>

definition ge0 :: "real option \<Rightarrow> bool" where
  "ge0 x = (case x of None \<Rightarrow> True | Some r \<Rightarrow> 0 \<le> r)"

definition limit_ok :: "int \<Rightarrow> bool" where
  "limit_ok n = (1 \<le> n \<and> n \<le> 100)"

definition list_products ::
  "store option \<Rightarrow> string option \<Rightarrow> string option \<Rightarrow> real option \<Rightarrow> real option \<Rightarrow>
   string option \<Rightarrow> int option \<Rightarrow> error + ProductOut list" where
  "list_products db q cat min_price max_price sort_by limit =
     (let sort' = (case sort_by of None \<Rightarrow> Some ''popularity'' | Some s \<Rightarrow> Some s);
          limit' = (case limit of None \<Rightarrow> 24 | Some n \<Rightarrow> n)
      in if ge0 min_price \<and> ge0 max_price \<and> limit_ok limit'
         then get_products db q cat min_price max_price sort' limit'
         else Inl RequestValidationError)"

text \<open>
  \<open>get_product\<close>: the \<open>try\<close> block, then the handler that turns every exception into
  \<open>None\<close>.
\<close>

definition get_product_try :: "store \<Rightarrow> string \<Rightarrow> error + ProductOut option" where
  "get_product_try st product_id =
     bind_res (object_id product_id) (\<lambda>oid.
       case find_one oid (product_coll st) of
         None \<Rightarrow> Inr None
       | Some doc \<Rightarrow>
           if doc \<noteq> [] then bind_res (project_product doc) (\<lambda>r. Inr (Some r)) else Inr None)"

definition get_product :: "store option \<Rightarrow> string \<Rightarrow> error + ProductOut option" where
  "get_product db product_id =
     (case db of
        None \<Rightarrow> Inr None
      | Some st \<Rightarrow>
          (case get_product_try st product_id of
             Inl e \<Rightarrow> Inr None
           | Inr r \<Rightarrow> Inr r))"

section \<open>Notions used in the statements\<close>






section \<open>Example data\<close>

text \<open>Documents, their records and small stores, used to evaluate the endpoints on concrete requests.\<close>

definition shoe_doc :: document where
  "shoe_doc = [(''_id'', VOid ''65a000000000000000000001''), (''title'', VStr ''Sneakers AirFlex X''),
     (''description'', VStr ''Light, for running''), (''price'', VInt 5999), (''category'', VStr ''Shoes''),
     (''brand'', VStr ''AirFlex''), (''rating'', VNum 4.7), (''reviews_count'', VInt 321),
     (''in_stock'', VBool True), (''discount_percent'', VInt 20),
     (''tags'', VList [VStr ''sneakers'', VStr ''sport''])]"

definition shirt_doc :: document where
  "shirt_doc = [(''_id'', VOid ''65a000000000000000000002''), (''title'', VStr ''T-shirt Basic Cotton''),
     (''price'', VInt 899), (''category'', VStr ''Clothes''), (''rating'', VNum 4.6),
     (''reviews_count'', VInt 1542), (''tags'', VList [VStr ''tshirt''])]"

definition untitled_doc :: document where
  "untitled_doc = [(''_id'', VOid ''65a000000000000000000003''), (''price'', VInt 100),
     (''category'', VStr ''Shoes''), (''rating'', VNum 4), (''reviews_count'', VInt 7)]"

definition demo_store :: store where
  "demo_store = \<lparr>product_coll = [shoe_doc, shirt_doc], category_coll = []\<rparr>"

definition returned_doc :: document where
  "returned_doc = [(''_id'', VOid ''65a000000000000000000004''), (''title'', VStr ''Refund voucher''),
     (''price'', VInt (- 5)), (''category'', VStr ''Misc''), (''rating'', VInt 3),
     (''reviews_count'', VInt 0)]"

definition returned_rec :: ProductOut where
  "returned_rec = \<lparr>prod_id = ''65a000000000000000000004'', title = ''Refund voucher'',
     description = None, price = - 5, category = ''Misc'', brand = None, rating = 3,
     reviews_count = 0, images = [], colors = [], sizes = [], in_stock = True,
     discount_percent = 0, tags = []\<rparr>"

definition voucher_store :: store where
  "voucher_store = \<lparr>product_coll = [returned_doc], category_coll = []\<rparr>"

definition shoe_rec :: ProductOut where
  "shoe_rec = \<lparr>prod_id = ''65a000000000000000000001'', title = ''Sneakers AirFlex X'',
     description = Some ''Light, for running'', price = 5999, category = ''Shoes'',
     brand = Some ''AirFlex'', rating = 4.7, reviews_count = 321, images = [], colors = [],
     sizes = [], in_stock = True, discount_percent = 20, tags = [''sneakers'', ''sport'']\<rparr>"

definition shirt_rec :: ProductOut where
  "shirt_rec = \<lparr>prod_id = ''65a000000000000000000002'', title = ''T-shirt Basic Cotton'',
     description = None, price = 899, category = ''Clothes'', brand = None, rating = 4.6,
     reviews_count = 1542, images = [], colors = [], sizes = [], in_stock = True,
     discount_percent = 0, tags = [''tshirt'']\<rparr>"

definition lookup_store :: store where
  "lookup_store = \<lparr>product_coll = [shoe_doc, untitled_doc], category_coll = []\<rparr>"








section \<open>Auxiliary lemmas\<close>

lemmas field_defs = req_str_def opt_str_def req_float_def def_float_def req_int_def def_bool_def
  def_str_list_def

lemmas project_defs = project_product_def to_id_str_def product_out_def bind_res_def field_defs

lemma bind_res_Inl [simp]: "bind_res (Inl e) f = Inl e"
  by (simp add: bind_res_def)

lemma bind_res_Inr [simp]: "bind_res (Inr a) f = f a"
  by (simp add: bind_res_def)

lemma bind_res_eq_Inr: "bind_res m f = Inr r \<longleftrightarrow> (\<exists>a. m = Inr a \<and> f a = Inr r)"
  by (cases m) simp_all

lemma bind_res_eq_Inl: "bind_res m f = Inl e \<longleftrightarrow> m = Inl e \<or> (\<exists>a. m = Inr a \<and> f a = Inl e)"
  by (cases m) simp_all

lemma map_res_eq_Inr: "map_res f xs = Inr ys \<longleftrightarrow> list_all2 (\<lambda>x y. f x = Inr y) xs ys"
proof (induction xs arbitrary: ys)
  case Nil
  show ?case by auto
next
  case (Cons x xs)
  show ?case
    by (cases ys) (auto simp: bind_res_eq_Inr Cons.IH)
qed


lemma get_products_Some:
  "get_products (Some st) q cat mn mx s n =
     bind_res (find_docs (build_flt q cat mn mx) (product_coll st)) (\<lambda>ms.
       map_res project_product
         (cursor_limit n (cursor_sort (fst (resolve_sort s)) (snd (resolve_sort s)) ms)))"
proof -
  have "fst (resolve_sort s) \<noteq> []"
    by (simp add: resolve_sort_def)
  then show ?thesis
    by (simp add: get_products_def Let_def case_prod_beta)
qed

section \<open>The store is not available\<close>



section \<open>Sort key resolution\<close>



section \<open>Which parameters count as present\<close>

lemma project_returned_doc: "project_product returned_doc = Inr returned_rec"
  by (simp add: returned_doc_def returned_rec_def project_defs)

lemma resolve_sort_default:
  "resolve_sort (case s of None \<Rightarrow> Some ''popularity'' | Some x \<Rightarrow> Some x) = resolve_sort s"
  by (cases s) (simp_all add: resolve_sort_def)

lemma given_simps [simp]: "\<not> given None" "\<not> given (Some [])" "given (Some (c # cs))"
  by (simp_all add: given_def)

lemma build_flt_empty_q: "build_flt (Some []) cat mn mx = build_flt None cat mn mx"
  by (simp add: build_flt_def)

lemma build_flt_empty_cat: "build_flt q (Some []) mn mx = build_flt q None mn mx"
  by (simp add: build_flt_def)

text \<open>
  Claim C10. An empty string given for \<open>category\<close> or for \<open>q\<close> adds no condition to the
  filter: the response is the one for the omitted parameter. A \<open>min_price\<close> or
  \<open>max_price\<close> of 0 does add its bound on the price, as every given number does.
\<close>

theorem empty_strings_absent_zero_present:
  "list_products db (Some []) cat mn mx s l = list_products db None cat mn mx s l \<and>
   list_products db q (Some []) mn mx s l = list_products db q None mn mx s l \<and>
   build_flt (Some []) (Some []) None None = \<lparr>f_or = None, f_category = None, f_price = None\<rparr> \<and>
   f_price (build_flt q cat (Some 0) mx) = Some \<lparr>gte = Some 0, lte = mx\<rparr> \<and>
   f_price (build_flt q cat mn (Some 0)) = Some \<lparr>gte = mn, lte = Some 0\<rparr> \<and>
   f_price (build_flt q cat None None) = None \<and>
   matches (build_flt None None (Some 0) None) d = num_holds (\<lambda>r. 0 \<le> r) (map_of d ''price'') \<and>
   matches (build_flt None None None (Some 0)) d = num_holds (\<lambda>r. r \<le> 0) (map_of d ''price'')"
proof -
  have a: "get_products db (Some []) cat mn mx s' n = get_products db None cat mn mx s' n" for s' n
    by (cases db) (simp_all add: get_products_def build_flt_empty_q)
  have b: "get_products db q (Some []) mn mx s' n = get_products db q None mn mx s' n" for s' n
    by (cases db) (simp_all add: get_products_def build_flt_empty_cat)
  have "list_products db (Some []) cat mn mx s l = list_products db None cat mn mx s l"
    by (simp add: list_products_def Let_def a)
  moreover have "list_products db q (Some []) mn mx s l = list_products db q None mn mx s l"
    by (simp add: list_products_def Let_def b)
  ultimately show ?thesis
    by (simp add: build_flt_def matches_def price_holds_def)
qed

lemma voucher_all:
  "list_products (Some voucher_store) None None None None None None = Inr [returned_rec]"
  by (simp add: list_products_def get_products_Some ge0_def limit_ok_def build_flt_def
      find_docs_def flt_modelled_def matches_def resolve_sort_def cursor_sort_def
      cursor_limit_def voucher_store_def project_returned_doc)

lemma voucher_min0:
  "list_products (Some voucher_store) None None (Some 0) None None None = Inr []"
  by (simp add: list_products_def get_products_Some ge0_def limit_ok_def build_flt_def
      find_docs_def flt_modelled_def matches_def price_holds_def num_sat_def resolve_sort_def
      cursor_sort_def cursor_limit_def voucher_store_def returned_doc_def)

theorem empty_strings_absent_zero_present_witness:
  "list_products (Some voucher_store) None (Some []) None None None None =
     list_products (Some voucher_store) None None None None None None \<and>
   list_products (Some voucher_store) None None None None None None = Inr [returned_rec] \<and>
   list_products (Some voucher_store) None None (Some 0) None None None = Inr [] \<and>
   f_price (build_flt None None (Some 0) None) = Some \<lparr>gte = Some 0, lte = None\<rparr> \<and>
   \<not> matches (build_flt None None (Some 0) None) returned_doc"
  using empty_strings_absent_zero_present
    [where db = "Some voucher_store" and q = None and cat = None and mn = None and mx = None
       and s = None and l = None and d = returned_doc]
  by (simp add: voucher_all voucher_min0 returned_doc_def num_sat_def)

section \<open>Single lookup\<close>

lemma project_shoe_doc: "project_product shoe_doc = Inr shoe_rec"
  by (simp add: shoe_doc_def shoe_rec_def project_defs)

lemma project_shirt_doc: "project_product shirt_doc = Inr shirt_rec"
  by (simp add: shirt_doc_def shirt_rec_def project_defs)

lemma project_untitled_doc: "project_product untitled_doc = Inl ValidationError"
  by (simp add: untitled_doc_def project_defs)

lemma find_one_Some:
  "find_one oid docs = Some doc \<Longrightarrow> doc \<in> set docs \<and> map_of doc ''_id'' = Some (VOid oid)"
  by (auto simp: find_one_def find_Some_iff)

lemma object_id_malformed:
  "length s \<noteq> 24 \<or> \<not> list_all is_hex s \<Longrightarrow> object_id s = Inl InvalidId"
  by (auto simp: object_id_def)

text \<open>
  Claim C7. For every identifier string \<open>get_product\<close> returns a value, one record or
  \<open>None\<close>, and never an error: an identifier that is not 24 hexadecimal digits gives
  \<open>None\<close>, an identifier that no document has gives \<open>None\<close>, and a document that is found
  but fails projection gives \<open>None\<close>; a document that is found and projects gives its
  record.
\<close>

theorem get_product_absent:
  "(\<exists>r. get_product db product_id = Inr r) \<and>
   (length product_id \<noteq> 24 \<or> \<not> list_all is_hex product_id \<longrightarrow>
      get_product db product_id = Inr None) \<and>
   (db = Some st \<and> object_id product_id = Inr oid \<and> find_one oid (product_coll st) = None \<longrightarrow>
      get_product db product_id = Inr None) \<and>
   (db = Some st \<and> object_id product_id = Inr oid \<and>
    find_one oid (product_coll st) = Some doc \<and> project_product doc = Inl e \<longrightarrow>
      get_product db product_id = Inr None) \<and>
   (db = Some st \<and> object_id product_id = Inr oid \<and>
    find_one oid (product_coll st) = Some doc \<and> project_product doc = Inr r \<longrightarrow>
      get_product db product_id = Inr (Some r))"
proof -
  have total: "\<exists>r. get_product db product_id = Inr r"
    by (simp add: get_product_def split: option.splits sum.splits)
  have malformed: "get_product db product_id = Inr None"
    if "length product_id \<noteq> 24 \<or> \<not> list_all is_hex product_id"
    using object_id_malformed [OF that]
    by (simp add: get_product_def get_product_try_def split: option.splits)
  have missing: "get_product db product_id = Inr None"
    if "db = Some st" "object_id product_id = Inr oid" "find_one oid (product_coll st) = None"
    using that by (simp add: get_product_def get_product_try_def)
  have invalid: "get_product db product_id = Inr None"
    if "db = Some st" "object_id product_id = Inr oid"
      "find_one oid (product_coll st) = Some doc" "project_product doc = Inl e"
    using that by (simp add: get_product_def get_product_try_def)
  have found: "get_product db product_id = Inr (Some r)"
    if "db = Some st" "object_id product_id = Inr oid"
      "find_one oid (product_coll st) = Some doc" "project_product doc = Inr r"
  proof -
    from find_one_Some [OF that(3)] have "doc \<noteq> []" by auto
    with that show ?thesis by (simp add: get_product_def get_product_try_def)
  qed
  from malformed missing invalid found
  have rest: "(length product_id \<noteq> 24 \<or> \<not> list_all is_hex product_id \<longrightarrow>
      get_product db product_id = Inr None) \<and>
   (db = Some st \<and> object_id product_id = Inr oid \<and> find_one oid (product_coll st) = None \<longrightarrow>
      get_product db product_id = Inr None) \<and>
   (db = Some st \<and> object_id product_id = Inr oid \<and>
    find_one oid (product_coll st) = Some doc \<and> project_product doc = Inl e \<longrightarrow>
      get_product db product_id = Inr None) \<and>
   (db = Some st \<and> object_id product_id = Inr oid \<and>
    find_one oid (product_coll st) = Some doc \<and> project_product doc = Inr r \<longrightarrow>
      get_product db product_id = Inr (Some r))"
    by (intro conjI impI) auto
  from total rest show ?thesis by (rule conjI)
qed

lemma object_id_lower_hex:
  "object_id ''65a000000000000000000001'' = Inr ''65a000000000000000000001''"
  "object_id ''65a000000000000000000003'' = Inr ''65a000000000000000000003''"
  "object_id ''65a0000000000000000000ff'' = Inr ''65a0000000000000000000ff''"
  by (simp_all add: object_id_def is_hex_def lower_def)

lemma lookup_store_find:
  "find_one ''65a000000000000000000001'' (product_coll lookup_store) = Some shoe_doc"
  "find_one ''65a000000000000000000003'' (product_coll lookup_store) = Some untitled_doc"
  "find_one ''65a0000000000000000000ff'' (product_coll lookup_store) = None"
  by (simp_all add: find_one_def lookup_store_def shoe_doc_def untitled_doc_def)

theorem get_product_absent_witness:
  "length ''no-such-id'' \<noteq> 24 \<and>
   get_product (Some lookup_store) ''no-such-id'' = Inr None \<and>
   object_id ''65a0000000000000000000ff'' = Inr ''65a0000000000000000000ff'' \<and>
   find_one ''65a0000000000000000000ff'' (product_coll lookup_store) = None \<and>
   get_product (Some lookup_store) ''65a0000000000000000000ff'' = Inr None \<and>
   find_one ''65a000000000000000000003'' (product_coll lookup_store) = Some untitled_doc \<and>
   project_product untitled_doc = Inl ValidationError \<and>
   get_product (Some lookup_store) ''65a000000000000000000003'' = Inr None \<and>
   find_one ''65a000000000000000000001'' (product_coll lookup_store) = Some shoe_doc \<and>
   project_product shoe_doc = Inr shoe_rec \<and>
   get_product (Some lookup_store) ''65a000000000000000000001'' = Inr (Some shoe_rec)"
  using
    get_product_absent [where db = "Some lookup_store" and product_id = "''no-such-id''"]
    get_product_absent [where db = "Some lookup_store" and st = lookup_store
      and product_id = "''65a0000000000000000000ff''" and oid = "''65a0000000000000000000ff''"]
    get_product_absent [where db = "Some lookup_store" and st = lookup_store
      and product_id = "''65a000000000000000000003''" and oid = "''65a000000000000000000003''"
      and doc = untitled_doc and e = ValidationError]
    get_product_absent [where db = "Some lookup_store" and st = lookup_store
      and product_id = "''65a000000000000000000001''" and oid = "''65a000000000000000000001''"
      and doc = shoe_doc and r = shoe_rec]
  by (simp add: object_id_lower_hex lookup_store_find project_untitled_doc project_shoe_doc)

section \<open>The result cap\<close>

lemma str_items_error: "str_items vs = Inl e \<Longrightarrow> e = ValidationError"
  by (induction vs rule: str_items.induct) (auto simp: bind_res_eq_Inl)

lemma field_errors:
  "req_str d k = Inl e \<Longrightarrow> e = ValidationError"
  "opt_str d k = Inl e \<Longrightarrow> e = ValidationError"
  "req_float d k = Inl e \<Longrightarrow> e = ValidationError"
  "def_float d k x = Inl e \<Longrightarrow> e = ValidationError"
  "req_int d k = Inl e \<Longrightarrow> e = ValidationError"
  "def_bool d k b = Inl e \<Longrightarrow> e = ValidationError"
  "def_str_list d k = Inl e \<Longrightarrow> e = ValidationError"
  by (auto simp: field_defs dest: str_items_error split: option.splits bson.splits)

lemma product_out_error: "product_out d = Inl e \<Longrightarrow> e = ValidationError"
  unfolding product_out_def bind_res_eq_Inl
  by (auto dest: field_errors)

lemma to_id_str_error: "to_id_str d = Inl e \<Longrightarrow> e = NotModelled"
  by (auto simp: to_id_str_def split: option.splits if_splits)

lemma project_product_error:
  "project_product d = Inl e \<Longrightarrow> e = ValidationError \<or> e = NotModelled"
  by (auto simp: project_product_def bind_res_eq_Inl dest: product_out_error to_id_str_error)

lemma map_res_error:
  assumes "map_res f xs = Inl e"
  shows "\<exists>x\<in>set xs. f x = Inl e"
  using assms
proof (induction xs)
  case Nil
  then show ?case by simp
next
  case (Cons x xs)
  then show ?case by (auto simp: bind_res_eq_Inl)
qed

lemma get_products_error:
  "get_products db q cat mn mx s n = Inl e \<Longrightarrow> e = ValidationError \<or> e = NotModelled"
proof (cases db)
  case None
  assume "get_products db q cat mn mx s n = Inl e"
  with None show ?thesis by (simp add: get_products_def)
next
  case (Some st)
  assume "get_products db q cat mn mx s n = Inl e"
  with Some show ?thesis
    by (auto simp: get_products_Some bind_res_eq_Inl find_docs_def
        dest!: map_res_error project_product_error split: if_splits)
qed

text \<open>
  The \<open>try\<close> block of \<open>get_product\<close> raises only what the handler is written for: a
  document found by its identifier has an ObjectId, so its identifier string is modelled.
\<close>

lemma get_product_try_errors:
  assumes "get_product_try st product_id = Inl e"
  shows "e = InvalidId \<or> e = ValidationError"
proof (cases "object_id product_id")
  case (Inl e')
  then have "e' = InvalidId"
    by (simp add: object_id_def split: if_splits)
  with Inl assms show ?thesis
    by (simp add: get_product_try_def)
next
  case (Inr oid)
  with assms obtain doc where
    found: "find_one oid (product_coll st) = Some doc" and
    failed: "project_product doc = Inl e"
    by (auto simp: get_product_try_def bind_res_eq_Inl split: option.splits if_splits)
  from find_one_Some [OF found] obtain a where "to_id_str doc = Inr a"
    by (auto simp: to_id_str_def)
  with failed have "product_out a = Inl e"
    by (simp add: project_product_def)
  then show ?thesis
    by (simp add: product_out_error)
qed

lemma length_cursor_limit: "n \<noteq> 0 \<Longrightarrow> length (cursor_limit n docs) \<le> nat \<bar>n\<bar>"
  by (simp add: cursor_limit_def)

text \<open>
  Claim C6. A \<open>limit\<close> outside 1..100 is rejected with the validation error of the route
  whatever the store holds, so before any query runs; a \<open>limit\<close> inside 1..100 is not
  rejected (the other parameters being valid), an omitted one stands for 24, and the
  response then has at most \<open>limit\<close> records, which are the projections of the first
  \<open>limit\<close> documents of the sorted sequence of matches: truncation follows the sort.
\<close>

theorem limit_validated_and_applied_after_sort:
  "(\<not> limit_ok n \<longrightarrow> list_products db q cat mn mx s (Some n) = Inl RequestValidationError) \<and>
   (limit_ok n \<and> ge0 mn \<and> ge0 mx \<longrightarrow>
      list_products db q cat mn mx s (Some n) \<noteq> Inl RequestValidationError) \<and>
   list_products db q cat mn mx s None = list_products db q cat mn mx s (Some 24) \<and>
   (limit_ok n \<and> list_products db q cat mn mx s (Some n) = Inr rs \<longrightarrow> length rs \<le> nat n) \<and>
   (limit_ok n \<and> ge0 mn \<and> ge0 mx \<and> db = Some st \<and>
    find_docs (build_flt q cat mn mx) (product_coll st) = Inr ms \<longrightarrow>
      list_products db q cat mn mx s (Some n) =
        map_res project_product
          (take (nat n) (cursor_sort (fst (resolve_sort s)) (snd (resolve_sort s)) ms)))"
proof -
  let ?s = "case s of None \<Rightarrow> Some ''popularity'' | Some x \<Rightarrow> Some x"
  have rejected: "list_products db q cat mn mx s (Some n) = Inl RequestValidationError"
    if "\<not> limit_ok n"
    using that by (simp add: list_products_def)
  have accepted: "list_products db q cat mn mx s (Some n) \<noteq> Inl RequestValidationError"
    if "limit_ok n" "ge0 mn" "ge0 mx"
  proof
    assume "list_products db q cat mn mx s (Some n) = Inl RequestValidationError"
    with that have "get_products db q cat mn mx ?s n = Inl RequestValidationError"
      by (simp add: list_products_def)
    from get_products_error [OF this] show False by simp
  qed
  have default: "list_products db q cat mn mx s None = list_products db q cat mn mx s (Some 24)"
    by (simp add: list_products_def)
  have capped: "length rs \<le> nat n"
    if ok: "limit_ok n" and res: "list_products db q cat mn mx s (Some n) = Inr rs"
  proof (cases db)
    case None
    with res have "rs = []"
      by (simp add: list_products_def get_products_def split: if_splits)
    then show ?thesis by simp
  next
    case (Some st')
    from res have "get_products db q cat mn mx ?s n = Inr rs"
      by (simp add: list_products_def split: if_splits)
    with Some obtain ms' where
      "map_res project_product
         (cursor_limit n (cursor_sort (fst (resolve_sort ?s)) (snd (resolve_sort ?s)) ms')) = Inr rs"
      by (auto simp: get_products_Some bind_res_eq_Inr)
    then have "length rs =
        length (cursor_limit n (cursor_sort (fst (resolve_sort ?s)) (snd (resolve_sort ?s)) ms'))"
      by (simp add: map_res_eq_Inr list_all2_lengthD)
    moreover from ok have "n \<noteq> 0" by (simp add: limit_ok_def)
    ultimately show ?thesis
      using length_cursor_limit [of n] ok by (simp add: limit_ok_def)
  qed
  have after_sort: "list_products db q cat mn mx s (Some n) =
        map_res project_product
          (take (nat n) (cursor_sort (fst (resolve_sort s)) (snd (resolve_sort s)) ms))"
    if "limit_ok n" "ge0 mn" "ge0 mx" "db = Some st"
      "find_docs (build_flt q cat mn mx) (product_coll st) = Inr ms"
  proof -
    from that(1) have "cursor_limit n = take (nat n)"
      by (auto simp: cursor_limit_def limit_ok_def fun_eq_iff)
    with that show ?thesis
      by (simp add: list_products_def get_products_Some resolve_sort_default)
  qed
  from rejected accepted capped after_sort
  have "(\<not> limit_ok n \<longrightarrow> list_products db q cat mn mx s (Some n) = Inl RequestValidationError) \<and>
   (limit_ok n \<and> ge0 mn \<and> ge0 mx \<longrightarrow>
      list_products db q cat mn mx s (Some n) \<noteq> Inl RequestValidationError) \<and>
   (limit_ok n \<and> list_products db q cat mn mx s (Some n) = Inr rs \<longrightarrow> length rs \<le> nat n) \<and>
   (limit_ok n \<and> ge0 mn \<and> ge0 mx \<and> db = Some st \<and>
    find_docs (build_flt q cat mn mx) (product_coll st) = Inr ms \<longrightarrow>
      list_products db q cat mn mx s (Some n) =
        map_res project_product
          (take (nat n) (cursor_sort (fst (resolve_sort s)) (snd (resolve_sort s)) ms)))"
    by (intro conjI impI) auto
  with default show ?thesis by simp
qed

lemma demo_keys:
  "map_of shoe_doc ''price'' = Some (VInt 5999)"
  "map_of shirt_doc ''price'' = Some (VInt 899)"
  "map_of shoe_doc ''rating'' = Some (VNum 4.7)"
  "map_of shirt_doc ''rating'' = Some (VNum 4.6)"
  "map_of shoe_doc ''reviews_count'' = Some (VInt 321)"
  "map_of shirt_doc ''reviews_count'' = Some (VInt 1542)"
  by (simp_all add: shoe_doc_def shirt_doc_def)

lemma demo_sorted:
  "cursor_sort ''price'' 1 [shoe_doc, shirt_doc] = [shirt_doc, shoe_doc]"
  "cursor_sort ''price'' (- 1) [shoe_doc, shirt_doc] = [shoe_doc, shirt_doc]"
  "cursor_sort ''rating'' (- 1) [shoe_doc, shirt_doc] = [shoe_doc, shirt_doc]"
  "cursor_sort ''reviews_count'' (- 1) [shoe_doc, shirt_doc] = [shirt_doc, shoe_doc]"
  by (simp_all add: cursor_sort_def demo_keys)

lemma demo_find_all:
  "find_docs (build_flt None None None None) (product_coll demo_store) = Inr [shoe_doc, shirt_doc]"
  by (simp add: find_docs_def flt_modelled_def build_flt_def matches_def demo_store_def)

theorem limit_validated_and_applied_after_sort_witness:
  "\<not> limit_ok 0 \<and> \<not> limit_ok 101 \<and> limit_ok 1 \<and> ge0 None \<and>
   list_products (Some demo_store) None None None None (Some ''price_asc'') (Some 0) =
     Inl RequestValidationError \<and>
   list_products (Some demo_store) None None None None (Some ''price_asc'') (Some 101) =
     Inl RequestValidationError \<and>
   find_docs (build_flt None None None None) (product_coll demo_store) =
     Inr [shoe_doc, shirt_doc] \<and>
   list_products (Some demo_store) None None None None (Some ''price_asc'') (Some 1) =
     Inr [shirt_rec] \<and>
   length [shirt_rec] \<le> nat 1"
  using
    limit_validated_and_applied_after_sort [where n = 0 and db = "Some demo_store" and q = None
      and cat = None and mn = None and mx = None and s = "Some ''price_asc''"]
    limit_validated_and_applied_after_sort [where n = 101 and db = "Some demo_store" and q = None
      and cat = None and mn = None and mx = None and s = "Some ''price_asc''"]
    limit_validated_and_applied_after_sort [where n = 1 and db = "Some demo_store" and q = None
      and cat = None and mn = None and mx = None and s = "Some ''price_asc''"
      and st = demo_store and ms = "[shoe_doc, shirt_doc]" and rs = "[shirt_rec]"]
  by (simp add: limit_ok_def ge0_def demo_find_all resolve_sort_def demo_sorted project_shirt_doc)

section \<open>Projection of a stored document\<close>

lemma to_id_str_map_of:
  assumes "to_id_str d = Inr d'"
  shows "map_of d' =
    (case map_of d ''_id'' of
       None \<Rightarrow> map_of d
     | Some v \<Rightarrow> if truthy v then (map_of d)(''_id'' := None, ''id'' \<mapsto> VStr (the (py_str v)))
                else map_of d)"
  using assms
  by (auto simp: to_id_str_def update_conv' delete_conv' split: option.splits if_splits)

lemma to_id_str_other:
  "to_id_str d = Inr d' \<Longrightarrow> k \<noteq> ''id'' \<Longrightarrow> k \<noteq> ''_id'' \<Longrightarrow> map_of d' k = map_of d k"
  by (auto simp: to_id_str_map_of split: option.splits)

lemma product_out_fields:
  assumes "product_out d = Inr r"
  shows "req_str d ''id'' = Inr (prod_id r)"
    and "req_str d ''title'' = Inr (title r)"
    and "opt_str d ''description'' = Inr (description r)"
    and "req_float d ''price'' = Inr (price r)"
    and "req_str d ''category'' = Inr (category r)"
    and "opt_str d ''brand'' = Inr (brand r)"
    and "req_float d ''rating'' = Inr (rating r)"
    and "req_int d ''reviews_count'' = Inr (reviews_count r)"
    and "def_str_list d ''images'' = Inr (images r)"
    and "def_str_list d ''colors'' = Inr (colors r)"
    and "def_str_list d ''sizes'' = Inr (sizes r)"
    and "def_bool d ''in_stock'' True = Inr (in_stock r)"
    and "def_float d ''discount_percent'' 0 = Inr (discount_percent r)"
    and "def_str_list d ''tags'' = Inr (tags r)"
  using assms unfolding product_out_def bind_res_eq_Inr by auto








section \<open>A document that fails projection\<close>








section \<open>Combination of the filter conditions\<close>

lemma set_cursor_sort [simp]: "set (cursor_sort k dir docs) = set docs"
  by (simp add: cursor_sort_def)

lemma set_cursor_limit: "set (cursor_limit n docs) \<subseteq> set docs"
  by (auto simp: cursor_limit_def dest: in_set_takeD)

lemma list_all2_source:
  "list_all2 P xs ys \<Longrightarrow> y \<in> set ys \<Longrightarrow> \<exists>x\<in>set xs. P x y"
  by (induction rule: list_all2_induct) auto

lemma get_products_record_source:
  assumes "get_products (Some st) q cat mn mx s n = Inr rs" and "r \<in> set rs"
  shows "\<exists>d\<in>set (product_coll st). matches (build_flt q cat mn mx) d \<and> project_product d = Inr r"
proof -
  let ?k = "fst (resolve_sort s)" and ?dir = "snd (resolve_sort s)"
  from assms(1) obtain ms where
    ms: "find_docs (build_flt q cat mn mx) (product_coll st) = Inr ms" and
    rs: "map_res project_product (cursor_limit n (cursor_sort ?k ?dir ms)) = Inr rs"
    by (auto simp: get_products_Some bind_res_eq_Inr)
  from rs have "list_all2 (\<lambda>d r. project_product d = Inr r) (cursor_limit n (cursor_sort ?k ?dir ms)) rs"
    by (simp add: map_res_eq_Inr)
  with assms(2) obtain d where "d \<in> set (cursor_limit n (cursor_sort ?k ?dir ms))"
    and d: "project_product d = Inr r"
    by (auto dest: list_all2_source)
  with set_cursor_limit have "d \<in> set ms" by fastforce
  moreover from ms have "ms = filter (matches (build_flt q cat mn mx)) (product_coll st)"
    by (simp add: find_docs_def split: if_splits)
  ultimately show ?thesis using d by auto
qed

lemma list_products_record_source:
  assumes "list_products (Some st) q cat mn mx s l = Inr rs" and "r \<in> set rs"
  shows "\<exists>d\<in>set (product_coll st). matches (build_flt q cat mn mx) d \<and> project_product d = Inr r"
proof -
  from assms(1) obtain s' n where "get_products (Some st) q cat mn mx s' n = Inr rs"
    by (auto simp: list_products_def Let_def split: if_splits)
  from get_products_record_source [OF this assms(2)] show ?thesis .
qed

lemma project_product_category:
  "project_product d = Inr r \<Longrightarrow> map_of d ''category'' = Some (VStr (category r))"
proof -
  assume "project_product d = Inr r"
  then obtain a where a: "to_id_str d = Inr a" and out: "product_out a = Inr r"
    by (auto simp: project_product_def bind_res_eq_Inr)
  from product_out_fields(5) [OF out] to_id_str_other [OF a, of "''category''"]
  show ?thesis
    by (auto simp: req_str_def split: option.splits bson.splits)
qed

lemma project_product_price:
  "project_product d = Inr r \<Longrightarrow> map_of d ''price'' \<noteq> None \<and> num_of (the (map_of d ''price'')) = Some (price r)
     \<and> (\<forall>vs. map_of d ''price'' \<noteq> Some (VList vs))"
proof -
  assume "project_product d = Inr r"
  then obtain a where a: "to_id_str d = Inr a" and out: "product_out a = Inr r"
    by (auto simp: project_product_def bind_res_eq_Inr)
  from product_out_fields(4) [OF out] to_id_str_other [OF a, of "''price''"]
  show ?thesis
    by (auto simp: req_float_def split: option.splits bson.splits)
qed

lemma num_holds_scalar:
  "num_of v = Some x \<Longrightarrow> num_holds P (Some v) = P x"
  by (cases v) (simp_all add: num_sat_def)

text \<open>
  Claim C5, as the code has it. The conditions that the parameters build are combined by
  conjunction: a document matches when it satisfies each condition that is active, and
  every document matches when none is. A \<open>category\<close> is active when it is given and not
  the empty string, a price bound whenever it is given. Every record of a response has
  the category of an active \<open>category\<close>, exactly, and a price within the given bounds.
\<close>

theorem filter_conditions_conjoined:
  "matches (build_flt q cat mn mx) d =
     ((given q \<longrightarrow> regex_holds (the q) (map_of d ''title'') \<or>
                   regex_holds (the q) (map_of d ''description'') \<or>
                   regex_holds (the q) (map_of d ''tags'')) \<and>
      (given cat \<longrightarrow> eq_holds (VStr (the cat)) (map_of d ''category'')) \<and>
      (mn \<noteq> None \<longrightarrow> num_holds (\<lambda>x. the mn \<le> x) (map_of d ''price'')) \<and>
      (mx \<noteq> None \<longrightarrow> num_holds (\<lambda>x. x \<le> the mx) (map_of d ''price''))) \<and>
   matches (build_flt None None None None) d \<and>
   (list_products (Some st) q cat mn mx s l = Inr rs \<and> r \<in> set rs \<longrightarrow>
      (given cat \<longrightarrow> category r = the cat) \<and>
      (mn \<noteq> None \<longrightarrow> the mn \<le> price r) \<and>
      (mx \<noteq> None \<longrightarrow> price r \<le> the mx))"
proof -
  have conj: "matches (build_flt q cat mn mx) d =
     ((given q \<longrightarrow> regex_holds (the q) (map_of d ''title'') \<or>
                   regex_holds (the q) (map_of d ''description'') \<or>
                   regex_holds (the q) (map_of d ''tags'')) \<and>
      (given cat \<longrightarrow> eq_holds (VStr (the cat)) (map_of d ''category'')) \<and>
      (mn \<noteq> None \<longrightarrow> num_holds (\<lambda>x. the mn \<le> x) (map_of d ''price'')) \<and>
      (mx \<noteq> None \<longrightarrow> num_holds (\<lambda>x. x \<le> the mx) (map_of d ''price'')))" for d
    by (auto simp: matches_def build_flt_def price_holds_def split: option.splits)
  have none: "matches (build_flt None None None None) d"
    by (simp add: matches_def build_flt_def)
  have recs: "(given cat \<longrightarrow> category r = the cat) \<and>
      (mn \<noteq> None \<longrightarrow> the mn \<le> price r) \<and> (mx \<noteq> None \<longrightarrow> price r \<le> the mx)"
    if res: "list_products (Some st) q cat mn mx s l = Inr rs" and r: "r \<in> set rs"
  proof -
    from list_products_record_source [OF res r] obtain d' where
      m: "matches (build_flt q cat mn mx) d'" and p: "project_product d' = Inr r"
      by blast
    from project_product_price [OF p] obtain v where
      v: "map_of d' ''price'' = Some v" "num_of v = Some (price r)"
      by auto
    from m have parts:
      "given cat \<longrightarrow> eq_holds (VStr (the cat)) (map_of d' ''category'')"
      "mn \<noteq> None \<longrightarrow> num_holds (\<lambda>x. the mn \<le> x) (map_of d' ''price'')"
      "mx \<noteq> None \<longrightarrow> num_holds (\<lambda>x. x \<le> the mx) (map_of d' ''price'')"
      unfolding conj by simp_all
    from parts(1) have "given cat \<longrightarrow> category r = the cat"
      by (simp add: project_product_category [OF p])
    moreover from parts(2) have "mn \<noteq> None \<longrightarrow> the mn \<le> price r"
      by (simp add: v num_holds_scalar [OF v(2)])
    moreover from parts(3) have "mx \<noteq> None \<longrightarrow> price r \<le> the mx"
      by (simp add: v num_holds_scalar [OF v(2)])
    ultimately show ?thesis by simp
  qed
  from conj [of d] none recs show ?thesis by blast
qed

lemma demo_fields:
  "map_of shoe_doc ''category'' = Some (VStr ''Shoes'')"
  "map_of shirt_doc ''category'' = Some (VStr ''Clothes'')"
  by (simp_all add: shoe_doc_def shirt_doc_def)

lemma demo_find_shoes:
  "find_docs (build_flt None (Some ''Shoes'') (Some 1000) (Some 10000)) (product_coll demo_store) =
     Inr [shoe_doc]"
  by (simp add: find_docs_def flt_modelled_def build_flt_def matches_def price_holds_def
      num_sat_def demo_store_def demo_keys demo_fields)

lemma demo_shoes_listing:
  "list_products (Some demo_store) None (Some ''Shoes'') (Some 1000) (Some 10000) None None =
     Inr [shoe_rec]"
  by (simp add: list_products_def ge0_def limit_ok_def get_products_Some demo_find_shoes
      resolve_sort_def cursor_sort_def cursor_limit_def project_shoe_doc)

lemma demo_empty_category_listing:
  "list_products (Some demo_store) None (Some []) None None None None = Inr [shirt_rec, shoe_rec]"
  by (simp add: list_products_def ge0_def limit_ok_def get_products_Some build_flt_empty_cat
      demo_find_all resolve_sort_def demo_sorted cursor_limit_def project_shoe_doc
      project_shirt_doc)

theorem filter_conditions_conjoined_witness:
  "given (Some ''Shoes'') \<and> Some (1000::real) \<noteq> None \<and> Some (10000::real) \<noteq> None \<and>
   list_products (Some demo_store) None (Some ''Shoes'') (Some 1000) (Some 10000) None None =
     Inr [shoe_rec] \<and>
   shoe_rec \<in> set [shoe_rec] \<and>
   category shoe_rec = ''Shoes'' \<and> 1000 \<le> price shoe_rec \<and> price shoe_rec \<le> 10000 \<and>
   \<not> matches (build_flt None (Some ''Shoes'') (Some 1000) (Some 10000)) shirt_doc \<and>
   matches (build_flt None None None None) shirt_doc"
  using filter_conditions_conjoined [where q = None and cat = "Some ''Shoes''"
      and mn = "Some 1000" and mx = "Some 10000" and s = None and l = None and st = demo_store
      and rs = "[shoe_rec]" and r = shoe_rec and d = shirt_doc]
  by (simp add: demo_shoes_listing demo_fields)

text \<open>
  With the empty string given for \<open>category\<close> the response holds records whose category
  is not the empty string.
\<close>

theorem filter_conditions_conjoined_counterexample:
  "list_products (Some demo_store) None (Some []) None None None None =
     Inr [shirt_rec, shoe_rec] \<and>
   category shirt_rec = ''Clothes'' \<and> category shirt_rec \<noteq> []"
  by (simp add: demo_empty_category_listing) (simp add: shirt_rec_def)

section \<open>Free-text search\<close>























section \<open>Order of the response\<close>























end
